theory Spec2Isabelle
  imports Main "HOL-Library.Word"
begin

section \<open>JavaScript values the code relies on\<close>

text \<open>
  A thrown value is either an \<open>Error\<close> object, which carries a message, or some other
  value, which has none. Every \<open>throw\<close> and every rejected promise of the source is an
  \<open>Inl\<close> of the sum type \<open>js_error + 'a\<close>.
\<close>

datatype js_error = JsError string | NonError

type_synonym bytes = "8 word list"

fun message :: "js_error \<Rightarrow> string option" where
  "message (JsError m) = Some m"
| "message NonError = None"

text \<open>
  Truthiness of a value of type \<open>string | null\<close> (or \<open>string | undefined\<close>): \<open>null\<close>,
  \<open>undefined\<close> and the empty string are falsy. \<open>or_else v d\<close> is \<open>v || d\<close>.
\<close>

definition truthy :: "string option \<Rightarrow> bool" where
  "truthy v = (case v of None \<Rightarrow> False | Some x \<Rightarrow> x \<noteq> [])"

definition or_else :: "string option \<Rightarrow> string \<Rightarrow> string" where
  "or_else v d = (if truthy v then the v else d)"

text \<open>\<open>accounts[0]\<close>: \<open>undefined\<close> on the empty array.\<close>

definition first_account :: "string list \<Rightarrow> string option" where
  "first_account accounts = (case accounts of [] \<Rightarrow> None | a # _ \<Rightarrow> Some a)"

section \<open>The browser: clock, timers, storage, console\<close>

datatype callback =
    UpdateTimeRemaining
  | ReloadPage
  | FetchAllRates
  | FetchData
  | RefetchCheckout

text \<open>
  A pending timer: its handle, the time at which it is due, its period when it was
  started by \<open>setInterval\<close> (\<open>None\<close> for a \<open>setTimeout\<close>) and its callback.
\<close>

record timer =
  tid :: nat
  due :: int
  every :: "int option"
  cb :: callback

record Browser =
  now :: int
  next_id :: nat
  timers :: "timer list"
  reloads :: nat
  localStorage :: "string \<rightharpoonup> string"
  console :: "string list"

text \<open>
  \<open>setInterval\<close> and \<open>setTimeout\<close> return a fresh positive handle; \<open>clearInterval\<close>
  removes the timer with that handle.
\<close>

definition setInterval :: "callback \<Rightarrow> int \<Rightarrow> 'a Browser_scheme \<Rightarrow> nat \<times> 'a Browser_scheme" where
  "setInterval f ms b =
     (let h = Suc (next_id b) in
      (h, b\<lparr>next_id := h,
            timers := timers b @ [\<lparr>tid = h, due = now b + ms, every = Some ms, cb = f\<rparr>]\<rparr>))"

definition setTimeout :: "callback \<Rightarrow> int \<Rightarrow> 'a Browser_scheme \<Rightarrow> nat \<times> 'a Browser_scheme" where
  "setTimeout f ms b =
     (let h = Suc (next_id b) in
      (h, b\<lparr>next_id := h,
            timers := timers b @ [\<lparr>tid = h, due = now b + ms, every = None, cb = f\<rparr>]\<rparr>))"

definition clearInterval :: "nat \<Rightarrow> 'a Browser_scheme \<Rightarrow> 'a Browser_scheme" where
  "clearInterval h b = b\<lparr>timers := filter (\<lambda>t. tid t \<noteq> h) (timers b)\<rparr>"

section \<open>useAlgorand.ts: the shared wallet and network state\<close>

datatype NetworkId = testnet | mainnet

record NetworkConfig =
  name :: string
  algodServer :: string
  algodPort :: string
  algodToken :: string

fun NETWORKS :: "NetworkId \<Rightarrow> NetworkConfig" where
  "NETWORKS testnet =
     \<lparr>name = ''TestNet'', algodServer = ''https://testnet-api.algonode.cloud'',
      algodPort = ''443'', algodToken = ''''\<rparr>"
| "NETWORKS mainnet =
     \<lparr>name = ''MainNet'', algodServer = ''https://mainnet-api.algonode.cloud'',
      algodPort = ''443'', algodToken = ''''\<rparr>"

text \<open>The node client \<open>new algosdk.Algodv2(token, server, port)\<close>, as the triple it is built from.\<close>

datatype Algodv2 = Algodv2 string string string

definition createAlgodClient :: "NetworkId \<Rightarrow> Algodv2" where
  "createAlgodClient network =
     (let config = NETWORKS network in
      Algodv2 (algodToken config) (algodServer config) (algodPort config))"

fun network_string :: "NetworkId \<Rightarrow> string" where
  "network_string testnet = ''testnet''"
| "network_string mainnet = ''mainnet''"

section \<open>Transactions, as the code describes them to algosdk\<close>

record SuggestedParams =
  fee :: int
  flatFee :: bool
  minFee :: int
  firstValid :: int
  lastValid :: int
  genesisID :: string
  genesisHash :: bytes

datatype OnApplicationComplete =
  NoOpOC | OptInOC | CloseOutOC | ClearStateOC | UpdateApplicationOC | DeleteApplicationOC

text \<open>
  What a transaction does. \<open>AssetTransfer receiver assetIndex amount\<close> and
  \<open>ApplicationCall appIndex onComplete appArgs foreignAssets accounts\<close> hold the fields
  of the objects given to \<open>makeAssetTransferTxnWithSuggestedParamsFromObject\<close> and
  \<open>makeApplicationCallTxnFromObject\<close>.
\<close>

datatype Payload =
    AssetTransfer string int int
  | ApplicationCall int OnApplicationComplete "bytes list" "int list" "string list"

record Transaction =
  sender :: string
  payload :: Payload
  suggestedParams :: SuggestedParams
  group :: "bytes option"

text \<open>Calls made on the wallet (\<open>peraWallet\<close>) and on a node client, in the order made.\<close>

datatype call =
    ReconnectSession
  | Connect
  | OnDisconnect
  | Disconnect
  | SignTransaction "Transaction list"
  | GetTransactionParams Algodv2
  | SendRawTransaction Algodv2 "bytes list"
  | WaitForConfirmation Algodv2 string nat

text \<open>
  What the wallet and the node answer. \<open>included w txId k\<close> tells whether the node
  reports transaction \<open>txId\<close> as included in a block when polled in the \<open>k\<close>-th round
  after submission.
\<close>

record World =
  on_reconnectSession :: "js_error + string list"
  on_connect :: "js_error + string list"
  on_getTransactionParams :: "js_error + SuggestedParams"
  on_signTransaction :: "Transaction list \<Rightarrow> js_error + bytes list"
  on_sendRawTransaction :: "bytes list \<Rightarrow> js_error + string"
  included :: "string \<Rightarrow> nat \<Rightarrow> bool"

text \<open>
  Modelled from the spec: \<open>algosdk.waitForConfirmation\<close> is a library function, not code
  of this repository. The client "polls node state once per newly-observed ledger round for inclusion in
  a confirmed block, up to a bounded maximum number of rounds", and fails with
  \<open>ConfirmationTimeout\<close> "if the bounded round count elapses without inclusion".
  \<open>waitForConfirmation node r n\<close> polls rounds \<open>r, r + 1, ...\<close>, at most \<open>n\<close> of them.
\<close>

fun waitForConfirmation :: "(nat \<Rightarrow> bool) \<Rightarrow> nat \<Rightarrow> nat \<Rightarrow> js_error + unit" where
  "waitForConfirmation node r 0 = Inl (JsError ''ConfirmationTimeout'')"
| "waitForConfirmation node r (Suc n) =
     (if node r then Inr () else waitForConfirmation node (Suc r) n)"

record Algorand = Browser +
  connectedAccount :: "string option"
  isInitialized :: bool
  networkId :: NetworkId
  algodClient :: Algodv2
  calls :: "call list"

definition isConnected :: "'a Algorand_scheme \<Rightarrow> bool" where
  "isConnected s = truthy (connectedAccount s)"

definition currentNetwork :: "'a Algorand_scheme \<Rightarrow> NetworkConfig" where
  "currentNetwork s = NETWORKS (networkId s)"

definition handleDisconnect :: "'a Algorand_scheme \<Rightarrow> 'a Algorand_scheme" where
  "handleDisconnect s = s\<lparr>connectedAccount := None\<rparr>"

definition disconnect :: "'a Algorand_scheme \<Rightarrow> 'a Algorand_scheme" where
  "disconnect s = s\<lparr>calls := calls s @ [Disconnect], connectedAccount := None\<rparr>"

text \<open>\<open>reconnectSession\<close> as \<open>init\<close> and \<open>connect\<close> use it: the restored account, if any.\<close>

definition restored_account :: "World \<Rightarrow> string option" where
  "restored_account w =
     (case on_reconnectSession w of
        Inl _ \<Rightarrow> None
      | Inr accounts \<Rightarrow>
          if accounts \<noteq> [] \<and> truthy (first_account accounts) then first_account accounts
          else None)"

definition init :: "World \<Rightarrow> 'a Algorand_scheme \<Rightarrow> 'a Algorand_scheme" where
  "init w s =
     (if isInitialized s then s
      else
        let s1 = s\<lparr>isInitialized := True, calls := calls s @ [ReconnectSession]\<rparr> in
        case restored_account w of
          None \<Rightarrow> s1
        | Some a \<Rightarrow> s1\<lparr>connectedAccount := Some a, calls := calls s1 @ [OnDisconnect]\<rparr>)"

definition connect :: "World \<Rightarrow> 'a Algorand_scheme \<Rightarrow> (js_error + unit) \<times> 'a Algorand_scheme" where
  "connect w s =
     (if truthy (connectedAccount s) then (Inr (), s)
      else
        let s1 = s\<lparr>calls := calls s @ [ReconnectSession]\<rparr> in
        case restored_account w of
          Some a \<Rightarrow> (Inr (), s1\<lparr>connectedAccount := Some a, calls := calls s1 @ [OnDisconnect]\<rparr>)
        | None \<Rightarrow>
            let s2 = s1\<lparr>calls := calls s1 @ [Connect]\<rparr> in
            (case on_connect w of
               Inr accounts \<Rightarrow>
                 (Inr (), s2\<lparr>connectedAccount := first_account accounts,
                             calls := calls s2 @ [OnDisconnect]\<rparr>)
             | Inl e \<Rightarrow>
                 (Inl e, s2\<lparr>console := console s2 @
                                 [''Wallet connection failed: '' @ or_else (message e) []]\<rparr>)))"

definition switchNetwork :: "NetworkId \<Rightarrow> 'a Algorand_scheme \<Rightarrow> 'a Algorand_scheme" where
  "switchNetwork network s =
     (if network = networkId s then s
      else
        let s1 = s\<lparr>networkId := network,
                   localStorage := (localStorage s)(''network'' \<mapsto> network_string network),
                   algodClient := createAlgodClient network\<rparr>;
            s2 = (if truthy (connectedAccount s1) then disconnect s1 else s1)
        in s2\<lparr>console := console s2 @ [''[Network] Switched to '' @ name (NETWORKS network)]\<rparr>)"

definition signAndSendTransactions ::
  "World \<Rightarrow> Transaction list \<Rightarrow> 'a Algorand_scheme \<Rightarrow> (js_error + string) \<times> 'a Algorand_scheme" where
  "signAndSendTransactions w txns s =
     (if \<not> truthy (connectedAccount s) then (Inl (JsError ''Wallet not connected''), s)
      else
        let s1 = s\<lparr>calls := calls s @ [SignTransaction txns]\<rparr> in
        case on_signTransaction w txns of
          Inl e \<Rightarrow> (Inl e, s1)
        | Inr signedTxns \<Rightarrow>
            let s2 = s1\<lparr>calls := calls s1 @ [SendRawTransaction (algodClient s1) signedTxns]\<rparr> in
            (case on_sendRawTransaction w signedTxns of
               Inl e \<Rightarrow> (Inl e, s2)
             | Inr txId \<Rightarrow>
                 let s3 = s2\<lparr>calls := calls s2 @ [WaitForConfirmation (algodClient s2) txId 4]\<rparr> in
                 (case waitForConfirmation (included w txId) 0 4 of
                    Inl e \<Rightarrow> (Inl e, s3)
                  | Inr _ \<Rightarrow> (Inr txId, s3))))"

section \<open>The checkout record and the library functions the payment code calls\<close>

text \<open>
  The \<open>Checkout\<close> interface of the payment page. All fields arrive as JSON strings;
  \<open>merchantName\<close> and \<open>note\<close> may be absent (the code reads them as \<open>x || ''\<close>). The
  payment form declares the same interface with \<open>payeeWallet\<close> and \<open>payeeName\<close> for
  \<open>merchantWallet\<close> and \<open>merchantName\<close>, and without \<open>expiresAt\<close>.
\<close>

record Checkout =
  id :: string
  appId :: string
  merchantWallet :: string
  merchantName :: "string option"
  amount :: string
  assetId :: string
  note' :: "string option"
  status :: string
  expiresAt :: string

datatype abi_value = Str string | Num int

text \<open>
  The functions of JavaScript and of algosdk that the payment code calls; none of them is
  code of this repository, so each is a parameter. \<open>BigInt\<close> throws on a string that is
  not an integer literal; \<open>dateTime s\<close> is \<open>new Date(s).getTime()\<close>, \<open>None\<close> for \<open>NaN\<close>;
  \<open>encode ty v\<close> is \<open>ty.encode(v)\<close> for the ABI type written \<open>ty\<close>; \<open>null_address\<close> is
  the error with which a transaction constructor rejects a \<open>null\<close> sender and \<open>invalid t\<close>
  the error with which it rejects any other argument, if it does; \<open>computeGroupID\<close> hashes
  the members of a group.
\<close>

record Lib =
  BigInt :: "string \<Rightarrow> js_error + int"
  dateTime :: "string \<Rightarrow> int option"
  getApplicationAddress :: "int \<Rightarrow> js_error + string"
  encode :: "string \<Rightarrow> abi_value \<Rightarrow> js_error + bytes"
  sha512_256 :: "string \<Rightarrow> bytes"
  null_address :: js_error
  invalid :: "Transaction \<Rightarrow> js_error option"
  computeGroupID :: "Transaction list \<Rightarrow> bytes"

text \<open>Sequencing of steps that may throw: the first error ends the \<open>try\<close> block.\<close>

definition bindE :: "js_error + 'a \<Rightarrow> ('a \<Rightarrow> js_error + 'b) \<Rightarrow> js_error + 'b" where
  "bindE m f = (case m of Inl e \<Rightarrow> Inl e | Inr x \<Rightarrow> f x)"

text \<open>
  \<open>new algosdk.ABIMethod({name, args, returns})\<close>: the method name, the arguments as pairs
  of type and name, and the return type.
\<close>

datatype ABIMethod = ABIMethod string "(string \<times> string) list" string

fun args :: "ABIMethod \<Rightarrow> (string \<times> string) list" where
  "args (ABIMethod n as r) = as"

fun commas :: "string list \<Rightarrow> string" where
  "commas [] = []"
| "commas [x] = x"
| "commas (x # y # ys) = x @ '','' @ commas (y # ys)"

text \<open>
  Modelled from the spec: the selector is "the first 4 bytes of a cryptographic hash
  (SHA-512/256 truncated ...) of the canonical method-signature string (method name plus
  parenthesized ordered parameter type list plus return type)"; \<open>ABIMethod.getSelector\<close> is
  algosdk's.
\<close>

fun getSignature :: "ABIMethod \<Rightarrow> string" where
  "getSignature (ABIMethod n as r) = n @ ''('' @ commas (map fst as) @ '')'' @ r"

definition getSelector :: "Lib \<Rightarrow> ABIMethod \<Rightarrow> bytes" where
  "getSelector lib m = take 4 (sha512_256 lib (getSignature m))"

definition arg_type :: "ABIMethod \<Rightarrow> nat \<Rightarrow> string" where
  "arg_type m i = fst (args m ! i)"

definition makeAssetTransferTxnWithSuggestedParamsFromObject ::
  "Lib \<Rightarrow> string option \<Rightarrow> string \<Rightarrow> int \<Rightarrow> int \<Rightarrow> SuggestedParams \<Rightarrow>
   js_error + Transaction" where
  "makeAssetTransferTxnWithSuggestedParamsFromObject lib payer rcv assetIndex amt sp =
     (case payer of
        None \<Rightarrow> Inl (null_address lib)
      | Some a \<Rightarrow>
          let t = \<lparr>sender = a, payload = AssetTransfer rcv assetIndex amt,
                   suggestedParams = sp, group = None\<rparr>
          in case invalid lib t of Some e \<Rightarrow> Inl e | None \<Rightarrow> Inr t)"

definition makeApplicationCallTxnFromObject ::
  "Lib \<Rightarrow> string option \<Rightarrow> int \<Rightarrow> OnApplicationComplete \<Rightarrow> bytes list \<Rightarrow> int list \<Rightarrow>
   string list \<Rightarrow> SuggestedParams \<Rightarrow> js_error + Transaction" where
  "makeApplicationCallTxnFromObject lib payer appIndex oc appArgs foreignAssets accounts sp =
     (case payer of
        None \<Rightarrow> Inl (null_address lib)
      | Some a \<Rightarrow>
          let t = \<lparr>sender = a,
                   payload = ApplicationCall appIndex oc appArgs foreignAssets accounts,
                   suggestedParams = sp, group = None\<rparr>
          in case invalid lib t of Some e \<Rightarrow> Inl e | None \<Rightarrow> Inr t)"

definition assignGroupID :: "Lib \<Rightarrow> Transaction list \<Rightarrow> Transaction list" where
  "assignGroupID lib txns = map (\<lambda>t. t\<lparr>group := Some (computeGroupID lib txns)\<rparr>) txns"


definition payCheckout_method :: ABIMethod where
  "payCheckout_method =
     ABIMethod ''payCheckout''
       [(''axfer'', ''payment''), (''string'', ''checkoutId''), (''address'', ''merchantWallet''),
        (''string'', ''merchantName''), (''uint64'', ''expectedAmount''), (''string'', ''note'')]
       ''void''"

text \<open>
  The block that \<open>pay\<close> (payment page) and \<open>payCheckout\<close> (payment form) both contain,
  from \<open>const appId = BigInt(...)\<close> to \<open>algosdk.assignGroupID([assetTxn, appCallTxn])\<close>.
  \<open>payer\<close> is \<open>connectedAccount.value\<close>, \<open>sp\<close> the fetched \<open>suggestedParams\<close>.
\<close>

definition payment_group ::
  "Lib \<Rightarrow> Checkout \<Rightarrow> string option \<Rightarrow> SuggestedParams \<Rightarrow> js_error + Transaction list" where
  "payment_group lib c payer sp =
     bindE (BigInt lib (appId c)) (\<lambda>appId.
     bindE (BigInt lib (assetId c)) (\<lambda>assetId.
     bindE (BigInt lib (amount c)) (\<lambda>amount.
     bindE (getApplicationAddress lib appId) (\<lambda>appAddr.
     bindE (makeAssetTransferTxnWithSuggestedParamsFromObject lib payer appAddr assetId amount sp)
       (\<lambda>assetTxn.
     let abiMethod = payCheckout_method in
     bindE (encode lib (arg_type abiMethod 1) (Str (id c))) (\<lambda>checkoutIdEncoded.
     bindE (encode lib (arg_type abiMethod 2) (Str (merchantWallet c))) (\<lambda>merchantEncoded.
     bindE (encode lib (arg_type abiMethod 3) (Str (or_else (merchantName c) [])))
       (\<lambda>merchantNameEncoded.
     bindE (encode lib (arg_type abiMethod 4) (Num amount)) (\<lambda>amountEncoded.
     bindE (encode lib (arg_type abiMethod 5) (Str (or_else (note' c) []))) (\<lambda>noteEncoded.
     bindE (makeApplicationCallTxnFromObject lib payer appId NoOpOC
              [getSelector lib abiMethod, checkoutIdEncoded, merchantEncoded,
               merchantNameEncoded, amountEncoded, noteEncoded]
              [assetId] [merchantWallet c] (sp\<lparr>fee := 2000, flatFee := True\<rparr>))
       (\<lambda>appCallTxn.
     Inr (assignGroupID lib [assetTxn, appCallTxn]))))))))))))"

section \<open>The payment views\<close>

text \<open>
  The refs of a payment view, on top of the wallet state it uses. The payment page keeps
  its own \<open>peraWallet\<close>, \<open>algodClient\<close> and \<open>connectedAccount\<close> and always has a checkout
  (\<open>'c = Checkout\<close>); the payment form takes them from \<open>useAlgorand()\<close> and loads its
  checkout after mounting (\<open>'c = Checkout option\<close>).
\<close>

record 'c PaymentView = Algorand +
  checkout :: 'c
  loading :: bool
  error :: "string option"
  success :: "string option"
  paying :: bool
  timeRemaining :: string

subsection \<open>Payment page: the countdown\<close>

text \<open>A non-negative integer in a template literal: its decimal digits.\<close>

fun dec :: "nat \<Rightarrow> string" where
  "dec n = (if n < 10 then [''0123456789'' ! n] else dec (n div 10) @ [''0123456789'' ! (n mod 10)])"

declare dec.simps [simp del]

definition updateTimeRemaining ::
  "Lib \<Rightarrow> (Checkout, 'a) PaymentView_scheme \<Rightarrow> (Checkout, 'a) PaymentView_scheme" where
  "updateTimeRemaining lib s =
     (case dateTime lib (expiresAt (checkout s)) of
        None \<Rightarrow> s\<lparr>timeRemaining := ''NaNm NaNs''\<rparr>
      | Some t \<Rightarrow>
          let diff = t - now s in
          if diff \<le> 0 then snd (setTimeout ReloadPage 1500 (s\<lparr>timeRemaining := ''Expired''\<rparr>))
          else
            let minutes = diff div 60000;
                seconds = (diff mod 60000) div 1000
            in s\<lparr>timeRemaining := dec (nat minutes) @ ''m '' @ dec (nat seconds) @ ''s''\<rparr>)"

definition onMounted_page ::
  "Lib \<Rightarrow> World \<Rightarrow> (Checkout, 'a) PaymentView_scheme \<Rightarrow> (Checkout, 'a) PaymentView_scheme" where
  "onMounted_page lib w s =
     (let s1 = (if status (checkout s) = ''pending''
                then snd (setInterval UpdateTimeRemaining 1000 (updateTimeRemaining lib s))
                else s);
          s2 = s1\<lparr>calls := calls s1 @ [ReconnectSession]\<rparr>
      in case restored_account w of
           None \<Rightarrow> s2
         | Some a \<Rightarrow> s2\<lparr>connectedAccount := Some a, calls := calls s2 @ [OnDisconnect]\<rparr>)"

text \<open>
  The payment page registers no teardown hook (it imports \<open>computed\<close>, \<open>onMounted\<close> and
  \<open>ref\<close> only) and drops the handle that \<open>setInterval\<close> returns: tearing the view down
  runs no code of the page.
\<close>

definition onUnmounted_page :: "(Checkout, 'a) PaymentView_scheme \<Rightarrow> (Checkout, 'a) PaymentView_scheme" where
  "onUnmounted_page s = s"

subsection \<open>The event loop of the payment page\<close>

text \<open>
  \<open>window.location.reload()\<close> ends the page: the document and its timers are discarded
  and a new document is loaded.
\<close>

definition reload :: "'a Browser_scheme \<Rightarrow> 'a Browser_scheme" where
  "reload b = b\<lparr>reloads := Suc (reloads b), timers := []\<rparr>"

fun run_callback ::
  "Lib \<Rightarrow> callback \<Rightarrow> (Checkout, 'a) PaymentView_scheme \<Rightarrow> (Checkout, 'a) PaymentView_scheme" where
  "run_callback lib UpdateTimeRemaining s = updateTimeRemaining lib s"
| "run_callback lib ReloadPage s = reload s"
| "run_callback lib f s = s"

text \<open>The timer that fires next: the one due first, the earlier started one on a tie.\<close>

fun earliest :: "timer list \<Rightarrow> timer option" where
  "earliest [] = None"
| "earliest (t # ts) =
     (case earliest ts of
        None \<Rightarrow> Some t
      | Some u \<Rightarrow> if due t \<le> due u then Some t else Some u)"

text \<open>After firing, a timeout is gone and an interval is due again one period later.\<close>

fun rearm :: "timer \<Rightarrow> timer list \<Rightarrow> timer list" where
  "rearm t [] = []"
| "rearm t (u # us) =
     (if tid u = tid t
      then (case every u of None \<Rightarrow> us | Some p \<Rightarrow> u\<lparr>due := due u + p\<rparr> # us)
      else u # rearm t us)"

text \<open>
  One turn of the event loop: the clock reaches the next timer's due time, the timer is
  rearmed or removed, and its callback runs. Timers fire exactly when due.
\<close>

definition turn ::
  "Lib \<Rightarrow> (Checkout, 'a) PaymentView_scheme \<Rightarrow> (Checkout, 'a) PaymentView_scheme" where
  "turn lib s =
     (case earliest (timers s) of
        None \<Rightarrow> s
      | Some t \<Rightarrow>
          run_callback lib (cb t) (s\<lparr>now := max (now s) (due t), timers := rearm t (timers s)\<rparr>))"

fun turns ::
  "Lib \<Rightarrow> nat \<Rightarrow> (Checkout, 'a) PaymentView_scheme \<Rightarrow> (Checkout, 'a) PaymentView_scheme" where
  "turns lib 0 s = s"
| "turns lib (Suc n) s = turns lib n (turn lib s)"

subsection \<open>Payment page: connect and pay\<close>

definition connect_page ::
  "World \<Rightarrow> (Checkout, 'a) PaymentView_scheme \<Rightarrow> (Checkout, 'a) PaymentView_scheme" where
  "connect_page w s =
     (let s1 = s\<lparr>loading := True, error := None, calls := calls s @ [Connect]\<rparr>;
          s2 = (case on_connect w of
                  Inr accounts \<Rightarrow>
                    if truthy (first_account accounts)
                    then s1\<lparr>connectedAccount := first_account accounts,
                            calls := calls s1 @ [OnDisconnect]\<rparr>
                    else s1
                | Inl err \<Rightarrow>
                    if message err \<noteq> Some ''Connect cancelled''
                    then s1\<lparr>error := Some (or_else (message err) ''Failed to connect wallet'')\<rparr>
                    else s1)
      in s2\<lparr>loading := False\<rparr>)"

text \<open>
  \<open>pay\<close> runs up to its first \<open>await\<close> at once (\<open>pay_begin\<close>: the guard, the three
  assignments and the request for the transaction parameters) and the rest when the
  answers arrive (\<open>pay_resume\<close>: the rest of the \<open>try\<close> block in \<open>pay_try\<close>, then
  \<open>catch\<close> and \<open>finally\<close>).
\<close>

definition pay_begin ::
  "(Checkout, 'a) PaymentView_scheme \<Rightarrow> (Checkout, 'a) PaymentView_scheme option" where
  "pay_begin s =
     (if \<not> truthy (connectedAccount s) then None
      else Some (s\<lparr>paying := True, error := None, success := None,
                   calls := calls s @ [GetTransactionParams (algodClient s)]\<rparr>))"

definition pay_try ::
  "Lib \<Rightarrow> World \<Rightarrow> (Checkout, 'a) PaymentView_scheme \<Rightarrow>
   (js_error + string) \<times> (Checkout, 'a) PaymentView_scheme" where
  "pay_try lib w s =
     (case on_getTransactionParams w of
        Inl e \<Rightarrow> (Inl e, s)
      | Inr params \<Rightarrow>
          (case payment_group lib (checkout s) (connectedAccount s) params of
             Inl e \<Rightarrow> (Inl e, s)
           | Inr txnsToSign \<Rightarrow>
               let s1 = s\<lparr>calls := calls s @ [SignTransaction txnsToSign]\<rparr> in
               (case on_signTransaction w txnsToSign of
                  Inl e \<Rightarrow> (Inl e, s1)
                | Inr signedTxns \<Rightarrow>
                    let s2 = s1\<lparr>calls := calls s1 @
                                  [SendRawTransaction (algodClient s1) signedTxns]\<rparr> in
                    (case on_sendRawTransaction w signedTxns of
                       Inl e \<Rightarrow> (Inl e, s2)
                     | Inr txId \<Rightarrow>
                         let s3 = s2\<lparr>calls := calls s2 @
                                       [WaitForConfirmation (algodClient s2) txId 4]\<rparr> in
                         (case waitForConfirmation (included w txId) 0 4 of
                            Inl e \<Rightarrow> (Inl e, s3)
                          | Inr _ \<Rightarrow> (Inr txId, s3))))))"

definition pay_resume ::
  "Lib \<Rightarrow> World \<Rightarrow> (Checkout, 'a) PaymentView_scheme \<Rightarrow> (Checkout, 'a) PaymentView_scheme" where
  "pay_resume lib w s =
     (case pay_try lib w s of
        (Inr txId, s1) \<Rightarrow>
          s1\<lparr>success := Some txId, checkout := (checkout s1)\<lparr>status := ''paid''\<rparr>,
             paying := False\<rparr>
      | (Inl e, s1) \<Rightarrow>
          s1\<lparr>console := console s1 @ [''Payment error: '' @ or_else (message e) []],
             error := Some (or_else (message e) ''Payment failed''),
             paying := False\<rparr>)"

definition pay ::
  "Lib \<Rightarrow> World \<Rightarrow> (Checkout, 'a) PaymentView_scheme \<Rightarrow> (Checkout, 'a) PaymentView_scheme" where
  "pay lib w s = (case pay_begin s of None \<Rightarrow> s | Some s1 \<Rightarrow> pay_resume lib w s1)"

text \<open>
  The template of the payment page. The header shows its connect button only when no
  account is connected; the action section is rendered for a pending checkout and shows
  the connect button when not connected and the pay button when connected; \<open>loading\<close>
  disables the connect buttons and \<open>paying\<close> the pay button. A click on a button that is
  not rendered or is disabled runs nothing.
\<close>

definition pay_button_enabled :: "(Checkout, 'a) PaymentView_scheme \<Rightarrow> bool" where
  "pay_button_enabled s =
     (status (checkout s) = ''pending'' \<and> isConnected s \<and> \<not> paying s)"

definition connect_button_enabled :: "(Checkout, 'a) PaymentView_scheme \<Rightarrow> bool" where
  "connect_button_enabled s = (\<not> isConnected s \<and> \<not> loading s)"

definition click_pay ::
  "(Checkout, 'a) PaymentView_scheme \<Rightarrow> (Checkout, 'a) PaymentView_scheme option" where
  "click_pay s = (if pay_button_enabled s then pay_begin s else None)"

definition click_connect ::
  "World \<Rightarrow> (Checkout, 'a) PaymentView_scheme \<Rightarrow> (Checkout, 'a) PaymentView_scheme" where
  "click_connect w s = (if connect_button_enabled s then connect_page w s else s)"

subsection \<open>Payment form: payCheckout\<close>

text \<open>
  As \<open>pay\<close>, \<open>payCheckout\<close> runs to its first \<open>await\<close> at once and the rest later. It
  signs and sends through \<open>signAndSendTransactions\<close>, does not change the checkout itself
  and, after a success, schedules a re-fetch of the checkout 2000 ms later.
\<close>

definition payCheckout_begin ::
  "(Checkout option, 'a) PaymentView_scheme \<Rightarrow> (Checkout option, 'a) PaymentView_scheme option" where
  "payCheckout_begin s =
     (if checkout s = None \<or> \<not> truthy (connectedAccount s) then None
      else Some (s\<lparr>paying := True, error := None, success := None,
                   calls := calls s @ [GetTransactionParams (algodClient s)]\<rparr>))"

definition payCheckout_try ::
  "Lib \<Rightarrow> World \<Rightarrow> (Checkout option, 'a) PaymentView_scheme \<Rightarrow>
   (js_error + string) \<times> (Checkout option, 'a) PaymentView_scheme" where
  "payCheckout_try lib w s =
     (case on_getTransactionParams w of
        Inl e \<Rightarrow> (Inl e, s)
      | Inr params \<Rightarrow>
          (case checkout s of
             None \<Rightarrow> (Inl (JsError ''Cannot read properties of null''), s)
           | Some c \<Rightarrow>
               (case payment_group lib c (connectedAccount s) params of
                  Inl e \<Rightarrow> (Inl e, s)
                | Inr txns \<Rightarrow> signAndSendTransactions w txns s)))"

definition payCheckout_resume ::
  "Lib \<Rightarrow> World \<Rightarrow> (Checkout option, 'a) PaymentView_scheme \<Rightarrow>
   (Checkout option, 'a) PaymentView_scheme" where
  "payCheckout_resume lib w s =
     (case payCheckout_try lib w s of
        (Inr txId, s1) \<Rightarrow>
          (snd (setTimeout RefetchCheckout 2000 (s1\<lparr>success := Some txId\<rparr>)))\<lparr>paying := False\<rparr>
      | (Inl e, s1) \<Rightarrow>
          s1\<lparr>console := console s1 @ [''Payment error: '' @ or_else (message e) []],
             error := Some (case e of JsError m \<Rightarrow> m | NonError \<Rightarrow> ''Payment failed''),
             paying := False\<rparr>)"

definition payCheckout ::
  "Lib \<Rightarrow> World \<Rightarrow> (Checkout option, 'a) PaymentView_scheme \<Rightarrow>
   (Checkout option, 'a) PaymentView_scheme" where
  "payCheckout lib w s =
     (case payCheckout_begin s of None \<Rightarrow> s | Some s1 \<Rightarrow> payCheckout_resume lib w s1)"

text \<open>
  The form's pay button is rendered for a pending checkout and disabled when no account
  is connected or a payment is running.
\<close>

definition form_button_enabled :: "(Checkout option, 'a) PaymentView_scheme \<Rightarrow> bool" where
  "form_button_enabled s =
     (case checkout s of
        None \<Rightarrow> False
      | Some c \<Rightarrow> status c = ''pending'' \<and> isConnected s \<and> \<not> paying s)"

definition click_payCheckout ::
  "(Checkout option, 'a) PaymentView_scheme \<Rightarrow> (Checkout option, 'a) PaymentView_scheme option" where
  "click_payCheckout s = (if form_button_enabled s then payCheckout_begin s else None)"

section \<open>The auto-refresh views\<close>

text \<open>
  The exchange-rate view and the payment-statistics view each hold \<open>autoRefresh\<close> and the
  handle \<open>refreshInterval\<close> (\<open>null\<close> when none). A handle is truthy when it is not 0.
\<close>

record RefreshView = Browser +
  autoRefresh :: bool
  refreshInterval :: "nat option"

definition clear_handle :: "nat option \<Rightarrow> 'a Browser_scheme \<Rightarrow> 'a Browser_scheme" where
  "clear_handle r b =
     (case r of None \<Rightarrow> b | Some h \<Rightarrow> if h \<noteq> 0 then clearInterval h b else b)"

subsection \<open>Exchange-rate view\<close>

definition setup_rates :: "'a RefreshView_scheme \<Rightarrow> 'a RefreshView_scheme" where
  "setup_rates s = s\<lparr>autoRefresh := False, refreshInterval := None\<rparr>"

definition toggleAutoRefresh_rates :: "'a RefreshView_scheme \<Rightarrow> 'a RefreshView_scheme" where
  "toggleAutoRefresh_rates s =
     (let s1 = s\<lparr>autoRefresh := \<not> autoRefresh s\<rparr> in
      if autoRefresh s1
      then (case setInterval FetchAllRates 60000 s1 of (h, s2) \<Rightarrow> s2\<lparr>refreshInterval := Some h\<rparr>)
      else (case refreshInterval s1 of
              None \<Rightarrow> s1
            | Some h \<Rightarrow> if h \<noteq> 0 then (clearInterval h s1)\<lparr>refreshInterval := None\<rparr> else s1))"

definition onUnmounted_rates :: "'a RefreshView_scheme \<Rightarrow> 'a RefreshView_scheme" where
  "onUnmounted_rates s = clear_handle (refreshInterval s) s"

subsection \<open>Payment-statistics view\<close>

definition setup_stats :: "'a RefreshView_scheme \<Rightarrow> 'a RefreshView_scheme" where
  "setup_stats s = s\<lparr>autoRefresh := True, refreshInterval := None\<rparr>"

definition startAutoRefresh :: "'a RefreshView_scheme \<Rightarrow> 'a RefreshView_scheme" where
  "startAutoRefresh s =
     (case setInterval FetchData 5000 (clear_handle (refreshInterval s) s) of
        (h, s1) \<Rightarrow> s1\<lparr>refreshInterval := Some h\<rparr>)"

definition stopAutoRefresh :: "'a RefreshView_scheme \<Rightarrow> 'a RefreshView_scheme" where
  "stopAutoRefresh s =
     (case refreshInterval s of
        None \<Rightarrow> s
      | Some h \<Rightarrow> if h \<noteq> 0 then (clearInterval h s)\<lparr>refreshInterval := None\<rparr> else s)"

definition toggleAutoRefresh_stats :: "'a RefreshView_scheme \<Rightarrow> 'a RefreshView_scheme" where
  "toggleAutoRefresh_stats s =
     (let s1 = s\<lparr>autoRefresh := \<not> autoRefresh s\<rparr> in
      if autoRefresh s1 then startAutoRefresh s1 else stopAutoRefresh s1)"

definition onMounted_stats :: "'a RefreshView_scheme \<Rightarrow> 'a RefreshView_scheme" where
  "onMounted_stats s = (if autoRefresh s then startAutoRefresh s else s)"

definition onUnmounted_stats :: "'a RefreshView_scheme \<Rightarrow> 'a RefreshView_scheme" where
  "onUnmounted_stats s = stopAutoRefresh s"

subsection \<open>What happens to a mounted view\<close>

text \<open>
  Between mounting and teardown the user toggles auto-refresh and timers fire, in any
  order. A firing timer is rearmed or removed by the browser; the callbacks of these
  views (\<open>fetchAllRates\<close>, \<open>fetchData\<close>) start and cancel no timer.
\<close>

datatype view_event = Toggle | Fire

definition fire :: "'a Browser_scheme \<Rightarrow> 'a Browser_scheme" where
  "fire b =
     (case earliest (timers b) of
        None \<Rightarrow> b
      | Some t \<Rightarrow> b\<lparr>now := max (now b) (due t), timers := rearm t (timers b)\<rparr>)"

fun rates_event :: "view_event \<Rightarrow> 'a RefreshView_scheme \<Rightarrow> 'a RefreshView_scheme" where
  "rates_event Toggle s = toggleAutoRefresh_rates s"
| "rates_event Fire s = fire s"

fun stats_event :: "view_event \<Rightarrow> 'a RefreshView_scheme \<Rightarrow> 'a RefreshView_scheme" where
  "stats_event Toggle s = toggleAutoRefresh_stats s"
| "stats_event Fire s = fire s"

definition rates_life :: "view_event list \<Rightarrow> 'a RefreshView_scheme \<Rightarrow> 'a RefreshView_scheme" where
  "rates_life es s = onUnmounted_rates (fold rates_event es (setup_rates s))"

definition stats_life :: "view_event list \<Rightarrow> 'a RefreshView_scheme \<Rightarrow> 'a RefreshView_scheme" where
  "stats_life es s = onUnmounted_stats (fold stats_event es (onMounted_stats (setup_stats s)))"

definition timers_of :: "callback \<Rightarrow> 'a Browser_scheme \<Rightarrow> timer list" where
  "timers_of f b = filter (\<lambda>t. cb t = f) (timers b)"

section \<open>Sample inputs\<close>

text \<open>
  A small executable stand-in for the library functions, to run the model on concrete
  inputs: decimal integer and date strings, ARC-4 style encodings of strings and 64-bit
  integers, the first 32 characters of a 58-character address as its bytes, and fixed
  values for the two hashes.
\<close>

definition digit_of :: "char \<Rightarrow> int option" where
  "digit_of c = map_of (zip ''0123456789'' [0, 1, 2, 3, 4, 5, 6, 7, 8, 9]) c"

fun parse_digits :: "string \<Rightarrow> int \<Rightarrow> int option" where
  "parse_digits [] acc = Some acc"
| "parse_digits (c # cs) acc =
     (case digit_of c of None \<Rightarrow> None | Some d \<Rightarrow> parse_digits cs (10 * acc + d))"

definition be_bytes :: "nat \<Rightarrow> int \<Rightarrow> bytes" where
  "be_bytes k n = map (\<lambda>i. word_of_int ((n div 256 ^ i) mod 256)) (rev [0..<k])"

definition stub_encode :: "string \<Rightarrow> abi_value \<Rightarrow> js_error + bytes" where
  "stub_encode ty v =
     (case v of
        Str x \<Rightarrow>
          if ty = ''string'' then
            (if length x < 65536 then Inr (be_bytes 2 (int (length x)) @ map of_char x)
             else Inl (JsError ''string too long''))
          else if ty = ''address'' then
            (if length x = 58 then Inr (map of_char (take 32 x))
             else Inl (JsError ''bad address''))
          else Inl (JsError ''cannot encode'')
      | Num n \<Rightarrow>
          if ty = ''uint64'' \<and> 0 \<le> n \<and> n < 2 ^ 64 then Inr (be_bytes 8 n)
          else Inl (JsError ''cannot encode''))"

definition stub_lib :: Lib where
  "stub_lib =
     \<lparr>BigInt = (\<lambda>s. case parse_digits s 0 of
                         None \<Rightarrow> Inl (JsError ''Cannot convert to a BigInt'')
                       | Some n \<Rightarrow> Inr n),
      dateTime = (\<lambda>s. parse_digits s 0),
      getApplicationAddress = (\<lambda>n. Inr (''APP-'' @ dec (nat n))),
      encode = stub_encode,
      sha512_256 = (\<lambda>s. [171, 205, 18, 52, 86, 120]),
      null_address = JsError ''Address must not be null or undefined'',
      invalid = (\<lambda>t. None),
      computeGroupID = (\<lambda>txns. [71, 73, 68])\<rparr>"

definition params0 :: SuggestedParams where
  "params0 =
     \<lparr>fee = 0, flatFee = False, minFee = 1000, firstValid = 5000, lastValid = 6000,
      genesisID = ''testnet-v1.0'', genesisHash = [72, 99]\<rparr>"

text \<open>The checkout of the spec's scenario, due at time 1800000 (in ms).\<close>

definition checkout1 :: Checkout where
  "checkout1 =
     \<lparr>id = ''CHK-1'', appId = ''754674671'',
      merchantWallet = ''MERCHANTAAAAAAAAAAAAAAAAAAAAAAAAAAAAAAAAAAAAAAAAAAAAAAAAAA'',
      merchantName = None, amount = ''1000000'', assetId = ''10458941'', note' = None,
      status = ''pending'', expiresAt = ''1800000''\<rparr>"

text \<open>A wallet and a node that accept everything; the node includes at once.\<close>

definition world0 :: World where
  "world0 =
     \<lparr>on_reconnectSession = Inr [],
      on_connect = Inr [''PAYERBBBBBBBBBBBBBBBBBBBBBBBBBBBBBBBBBBBBBBBBBBBBBBBBBBBBB''],
      on_getTransactionParams = Inr params0,
      on_signTransaction = (\<lambda>txns. Inr (map (\<lambda>t. [1]) txns)),
      on_sendRawTransaction = (\<lambda>signed. Inr ''TXID1''),
      included = (\<lambda>txId k. True)\<rparr>"

text \<open>The shared wallet state with an account connected on the test network.\<close>

definition session0 :: Algorand where
  "session0 =
     \<lparr>now = 0, next_id = 0, timers = [], reloads = 0, localStorage = Map.empty, console = [],
      connectedAccount = Some ''PAYERBBBBBBBBBBBBBBBBBBBBBBBBBBBBBBBBBBBBBBBBBBBBBBBBBBBBB'', isInitialized = True,
      networkId = testnet, algodClient = createAlgodClient testnet, calls = []\<rparr>"

text \<open>The payment page and the payment form showing \<open>checkout1\<close>, an account connected.\<close>

definition page0 :: "Checkout PaymentView" where
  "page0 =
     \<lparr>now = 0, next_id = 0, timers = [], reloads = 0, localStorage = Map.empty, console = [],
      connectedAccount = Some ''PAYERBBBBBBBBBBBBBBBBBBBBBBBBBBBBBBBBBBBBBBBBBBBBBBBBBBBBB'', isInitialized = True,
      networkId = testnet, algodClient = createAlgodClient testnet, calls = [],
      checkout = checkout1, loading = False, error = None, success = None, paying = False,
      timeRemaining = []\<rparr>"

definition form0 :: "Checkout option PaymentView" where
  "form0 =
     \<lparr>now = 0, next_id = 0, timers = [], reloads = 0, localStorage = Map.empty, console = [],
      connectedAccount = Some ''PAYERBBBBBBBBBBBBBBBBBBBBBBBBBBBBBBBBBBBBBBBBBBBBBBBBBBBBB'', isInitialized = True,
      networkId = testnet, algodClient = createAlgodClient testnet, calls = [],
      checkout = Some checkout1, loading = False, error = None, success = None, paying = False,
      timeRemaining = []\<rparr>"

text \<open>A browser in which another timer is already pending.\<close>

definition view0 :: RefreshView where
  "view0 =
     \<lparr>now = 0, next_id = 1,
      timers = [\<lparr>tid = 1, due = 700, every = None, cb = RefetchCheckout\<rparr>],
      reloads = 0, localStorage = Map.empty, console = [],
      autoRefresh = False, refreshInterval = None\<rparr>"

text \<open>
  Wallets that answer the interactive connect differently: with another account, with
  the user's cancellation, and with another failure.
\<close>

definition world_other :: World where
  "world_other = world0\<lparr>on_connect := Inr [''OTHER'']\<rparr>"



text \<open>
  The group that \<open>stub_lib\<close> builds for \<open>checkout1\<close> from the parameters \<open>sp\<close>, written
  out; and parameters of a network whose minimum fee is 2000.
\<close>

definition group_with :: "SuggestedParams \<Rightarrow> Transaction list" where
  "group_with sp =
     [\<lparr>sender = ''PAYERBBBBBBBBBBBBBBBBBBBBBBBBBBBBBBBBBBBBBBBBBBBBBBBBBBBBB'',
       payload = AssetTransfer ''APP-754674671'' 10458941 1000000,
       suggestedParams = sp, group = Some [71, 73, 68]\<rparr>,
      \<lparr>sender = ''PAYERBBBBBBBBBBBBBBBBBBBBBBBBBBBBBBBBBBBBBBBBBBBBBBBBBBBBB'',
       payload =
         ApplicationCall 754674671 NoOpOC
           [[171, 205, 18, 52], [0, 5, 67, 72, 75, 45, 49],
            [77, 69, 82, 67, 72, 65, 78, 84, 65, 65, 65, 65, 65, 65, 65, 65,
             65, 65, 65, 65, 65, 65, 65, 65, 65, 65, 65, 65, 65, 65, 65, 65],
            [0, 0], [0, 0, 0, 0, 0, 15, 66, 64], [0, 0]]
           [10458941] [''MERCHANTAAAAAAAAAAAAAAAAAAAAAAAAAAAAAAAAAAAAAAAAAAAAAAAAAA''],
       suggestedParams = sp\<lparr>fee := 2000, flatFee := True\<rparr>, group = Some [71, 73, 68]\<rparr>]"



text \<open>The payment page right after \<open>pay\<close> has run to its first \<open>await\<close>.\<close>

definition inflight0 :: "Checkout PaymentView" where
  "inflight0 = page0\<lparr>paying := True, calls := [GetTransactionParams (createAlgodClient testnet)]\<rparr>"

fun is_send :: "call \<Rightarrow> bool" where
  "is_send (SendRawTransaction c raw) = True"
| "is_send c = False"

section \<open>Predicates used in the proofs about timers\<close>

text \<open>
  The view's timers: those that run the view's callback. In the statistics view each is
  the one whose handle the view holds; in the exchange-rate view likewise, and there is
  none while auto-refresh is off.
\<close>

definition stats_inv :: "'a RefreshView_scheme \<Rightarrow> bool" where
  "stats_inv s =
     (\<forall>t\<in>set (timers s). cb t = FetchData \<longrightarrow> refreshInterval s = Some (tid t) \<and> tid t \<noteq> 0)"

definition rates_inv :: "'a RefreshView_scheme \<Rightarrow> bool" where
  "rates_inv s =
     (\<forall>t\<in>set (timers s). cb t = FetchAllRates \<longrightarrow>
        autoRefresh s \<and> refreshInterval s = Some (tid t) \<and> tid t \<noteq> 0)"


definition tick_timer :: "nat \<Rightarrow> int \<Rightarrow> timer" where
  "tick_timer h d = \<lparr>tid = h, due = d, every = Some 1000, cb = UpdateTimeRemaining\<rparr>"

definition reload_timer :: "nat \<Rightarrow> int \<Rightarrow> timer" where
  "reload_timer h d = \<lparr>tid = h, due = d, every = None, cb = ReloadPage\<rparr>"





definition page5 :: "Checkout PaymentView" where
  "page5 = page0\<lparr>checkout := checkout1\<lparr>expiresAt := ''5000''\<rparr>\<rparr>"

section \<open>Network switching\<close>

text \<open>
  Claim C10. Calling \<open>switchNetwork\<close> with the network that is already active changes
  nothing: the connected account, the node client, the network identifier, the stored
  selection, the calls made on the wallet and the console are all as before, so the
  wallet stays connected.
\<close>

theorem switchNetwork_same_network_noop:
  "switchNetwork (networkId s) s = s"
  by (simp add: switchNetwork_def)

theorem switchNetwork_same_network_noop_witness:
  "networkId session0 = testnet
   \<and> isConnected (switchNetwork testnet session0)
   \<and> connectedAccount (switchNetwork testnet session0) = connectedAccount session0
   \<and> algodClient (switchNetwork testnet session0) = algodClient session0
   \<and> localStorage (switchNetwork testnet session0) ''network'' = None
   \<and> calls (switchNetwork testnet session0) = []
   \<and> console (switchNetwork testnet session0) = []"
proof -
  have n: "networkId session0 = testnet"
    by (simp add: session0_def)
  have "switchNetwork testnet session0 = session0"
    using switchNetwork_same_network_noop [of session0] by (simp add: n)
  then show ?thesis
    by (simp add: session0_def isConnected_def truthy_def)
qed

text \<open>
  Claim C6. Switching to another network while an account is connected leaves no account
  connected (\<open>isConnected\<close> is false right after the call, the wallet having been told to
  disconnect), and replaces the node client by one built from the new network's
  configuration; the new identifier is also stored. (A call that names the active network
  switches nothing: that is claim C10.)
\<close>

theorem switchNetwork_disconnects:
  assumes "isConnected s" and "network \<noteq> networkId s"
  shows "\<not> isConnected (switchNetwork network s)
       \<and> connectedAccount (switchNetwork network s) = None
       \<and> networkId (switchNetwork network s) = network
       \<and> algodClient (switchNetwork network s) = createAlgodClient network
       \<and> createAlgodClient network =
           Algodv2 (algodToken (NETWORKS network)) (algodServer (NETWORKS network))
             (algodPort (NETWORKS network))
       \<and> localStorage (switchNetwork network s) ''network'' = Some (network_string network)
       \<and> calls (switchNetwork network s) = calls s @ [Disconnect]"
  using assms
  by (simp add: switchNetwork_def isConnected_def disconnect_def Let_def
      createAlgodClient_def truthy_def)

theorem switchNetwork_disconnects_witness:
  "isConnected session0 \<and> mainnet \<noteq> networkId session0
   \<and> \<not> isConnected (switchNetwork mainnet session0)
   \<and> algodClient (switchNetwork mainnet session0)
       = Algodv2 [] ''https://mainnet-api.algonode.cloud'' ''443''
   \<and> algodClient session0 = Algodv2 [] ''https://testnet-api.algonode.cloud'' ''443''"
proof -
  have c: "isConnected session0"
    by (simp add: session0_def isConnected_def truthy_def)
  have n: "mainnet \<noteq> networkId session0"
    by (simp add: session0_def)
  show ?thesis
    using c n switchNetwork_disconnects [OF c n]
    by (simp add: createAlgodClient_def session0_def)
qed

section \<open>Connecting the wallet\<close>


text \<open>
  Claim C7, as it holds. The \<open>connect\<close> of \<open>useAlgorand\<close> is idempotent: with an account
  connected it returns at once, calls nothing on the wallet and leaves the state as it
  is. The payment page has a \<open>connect\<close> of its own without that check; there the connect
  buttons are offered only while no account is connected, so a click in a connected
  state runs nothing.
\<close>

theorem connect_idempotent:
  assumes "isConnected s" and "isConnected p"
  shows "connect w s = (Inr (), s) \<and> click_connect w p = p"
  using assms
  by (simp add: connect_def isConnected_def click_connect_def connect_button_enabled_def)

theorem connect_idempotent_witness:
  "isConnected session0 \<and> isConnected page0
   \<and> connect world_other session0 = (Inr (), session0)
   \<and> click_connect world_other page0 = page0"
proof -
  have a: "isConnected session0"
    by (simp add: session0_def isConnected_def truthy_def)
  have b: "isConnected page0"
    by (simp add: page0_def isConnected_def truthy_def)
  show ?thesis
    using a b connect_idempotent [OF a b, of world_other] by simp
qed

text \<open>
  Claim C7 as stated fails for the payment page's \<open>connect\<close>: called with an account
  connected it still asks the wallet to connect, and takes the account the wallet
  answers with.
\<close>

theorem connect_page_reprompts:
  "isConnected page0
   \<and> calls (connect_page world_other page0) = [Connect, OnDisconnect]
   \<and> connectedAccount (connect_page world_other page0) = Some ''OTHER''
   \<and> connectedAccount (connect_page world_other page0) \<noteq> connectedAccount page0"
  by (simp add: connect_page_def world_other_def world0_def page0_def isConnected_def
      truthy_def first_account_def Let_def)




section \<open>The payment group\<close>

lemma bindE_Inr: "bindE (Inr x) f = f x"
  by (simp add: bindE_def)

lemma bindE_Inl: "bindE (Inl e) f = Inl e"
  by (simp add: bindE_def)


lemma payCheckout_signature:
  "getSignature payCheckout_method = ''payCheckout(axfer,string,address,string,uint64,string)void''"
  by (simp add: payCheckout_method_def)

lemma payCheckout_arg_types:
  "arg_type payCheckout_method (Suc 0) = ''string''"
  "arg_type payCheckout_method 2 = ''address''"
  "arg_type payCheckout_method 3 = ''string''"
  "arg_type payCheckout_method 4 = ''uint64''"
  "arg_type payCheckout_method 5 = ''string''"
  by (simp_all add: arg_type_def payCheckout_method_def)





lemma stub_group:
  "payment_group stub_lib checkout1 (Some ''PAYERBBBBBBBBBBBBBBBBBBBBBBBBBBBBBBBBBBBBBBBBBBBBBBBBBBBBB'') sp = Inr (group_with sp)"
  by (simp add: payment_group_def bindE_Inr bindE_Inl stub_lib_def checkout1_def group_with_def
      payCheckout_arg_types getSelector_def payCheckout_signature digit_of_def dec.simps
      makeAssetTransferTxnWithSuggestedParamsFromObject_def stub_encode_def be_bytes_def
      upt_rec or_else_def truthy_def makeApplicationCallTxnFromObject_def assignGroupID_def
      Let_def)







section \<open>Paying\<close>

lemma waitForConfirmation_4:
  "waitForConfirmation node r 4 =
     (if node r \<or> node (Suc r) \<or> node (Suc (Suc r)) \<or> node (Suc (Suc (Suc r))) then Inr ()
      else Inl (JsError ''ConfirmationTimeout''))"
  by (simp add: numeral_eq_Suc)


lemma pay_begin_Some:
  "isConnected s \<Longrightarrow>
   pay_begin s = Some (s\<lparr>paying := True, error := None, success := None,
                         calls := calls s @ [GetTransactionParams (algodClient s)]\<rparr>)"
  by (simp add: pay_begin_def isConnected_def)












lemma pay_signs_payment_group:
  assumes "isConnected s"
    and "on_getTransactionParams w = Inr sp"
    and "payment_group lib (checkout s) (connectedAccount s) sp = Inr txns"
  shows "take 2 (drop (length (calls s)) (calls (pay lib w s))) =
           [GetTransactionParams (algodClient s), SignTransaction txns]"
  using assms(2,3)
  by (simp add: pay_def pay_begin_Some [OF assms(1)] pay_resume_def pay_try_def Let_def
      split: sum.splits)

lemma payCheckout_signs_payment_group:
  assumes "isConnected f"
    and "checkout f = Some c"
    and "on_getTransactionParams w = Inr sp"
    and "payment_group lib c (connectedAccount f) sp = Inr txns"
  shows "take 2 (drop (length (calls f)) (calls (payCheckout lib w f))) =
           [GetTransactionParams (algodClient f), SignTransaction txns]"
  using assms
  by (simp add: payCheckout_def payCheckout_begin_def payCheckout_resume_def
      payCheckout_try_def signAndSendTransactions_def setTimeout_def isConnected_def Let_def
      split: sum.splits)

lemma payCheckout_try_frame: "(snd (payCheckout_try lib w s))\<lparr>calls := calls s\<rparr> = s"
  by (simp add: payCheckout_try_def signAndSendTransactions_def Let_def
      split: sum.splits option.splits)

lemma pay_resume_not_paying: "\<not> paying (pay_resume lib w s)"
  by (cases "pay_try lib w s") (simp add: pay_resume_def split: sum.splits)

lemma payCheckout_resume_not_paying: "\<not> paying (payCheckout_resume lib w s)"
  by (cases "payCheckout_try lib w s")
    (simp add: payCheckout_resume_def setTimeout_def Let_def split: sum.splits)

text \<open>
  Claim C3, as it holds. From the moment \<open>pay\<close> (or \<open>payCheckout\<close>) has started until it
  ends, \<open>paying\<close> is set and the pay button is disabled, so a click starts no second
  attempt; the call in flight then runs on as it would alone and clears \<open>paying\<close> at its
  end. The guard is the disabled button: the functions themselves never read \<open>paying\<close>
  and know no \<open>AlreadyInProgress\<close> error.
\<close>

theorem pay_in_flight_button_disabled:
  assumes "pay_begin s = Some s1" and "payCheckout_begin f = Some f1"
  shows "paying s1 \<and> \<not> pay_button_enabled s1 \<and> click_pay s1 = None
       \<and> pay lib w s = pay_resume lib w s1 \<and> \<not> paying (pay lib w s)
       \<and> paying f1 \<and> \<not> form_button_enabled f1 \<and> click_payCheckout f1 = None
       \<and> payCheckout lib w f = payCheckout_resume lib w f1 \<and> \<not> paying (payCheckout lib w f)"
proof -
  have a: "paying s1"
    using assms(1) by (auto simp: pay_begin_def split: if_splits)
  have b: "paying f1 \<and> checkout f1 \<noteq> None"
    using assms(2) by (auto simp: payCheckout_begin_def split: if_splits)
  show ?thesis
    using a b assms
    by (auto simp: pay_button_enabled_def click_pay_def pay_def form_button_enabled_def
        click_payCheckout_def payCheckout_def pay_resume_not_paying
        payCheckout_resume_not_paying)
qed

theorem pay_in_flight_button_disabled_witness:
  "pay_begin page0 = Some inflight0
   \<and> paying inflight0 \<and> \<not> pay_button_enabled inflight0 \<and> click_pay inflight0 = None
   \<and> pay stub_lib world0 page0 = pay_resume stub_lib world0 inflight0
   \<and> payCheckout_begin form0 = Some (form0\<lparr>paying := True,
         calls := [GetTransactionParams (createAlgodClient testnet)]\<rparr>)
   \<and> click_payCheckout (form0\<lparr>paying := True,
         calls := [GetTransactionParams (createAlgodClient testnet)]\<rparr>) = None"
proof -
  have a: "pay_begin page0 = Some inflight0"
    by (simp add: pay_begin_def page0_def inflight0_def truthy_def)
  have b: "payCheckout_begin form0 = Some (form0\<lparr>paying := True,
         calls := [GetTransactionParams (createAlgodClient testnet)]\<rparr>)"
    by (simp add: payCheckout_begin_def form0_def truthy_def)
  show ?thesis
    using a b pay_in_flight_button_disabled [OF a b, of stub_lib world0]
    by simp
qed

lemma payment_group_status:
  "payment_group lib (c\<lparr>status := st\<rparr>) payer sp = payment_group lib c payer sp"
  by (simp add: payment_group_def)

text \<open>
  Claim C3 as stated fails for a second call of \<open>pay\<close> itself: made while the first is
  in flight, it is not rejected but starts an attempt of its own, and both attempts
  send a transaction.
\<close>

theorem second_pay_not_rejected:
  "pay_begin page0 = Some inflight0
   \<and> paying inflight0
   \<and> pay_begin inflight0 =
       Some (inflight0\<lparr>calls := [GetTransactionParams (createAlgodClient testnet),
                                 GetTransactionParams (createAlgodClient testnet)]\<rparr>)
   \<and> error (pay stub_lib world0 inflight0) = None
   \<and> success (pay stub_lib world0 inflight0) = Some ''TXID1''
   \<and> filter is_send (calls (pay_resume stub_lib world0 (pay stub_lib world0 inflight0)))
       = [SendRawTransaction (createAlgodClient testnet) [[1], [1]],
          SendRawTransaction (createAlgodClient testnet) [[1], [1]]]"
proof -
  have g: "payment_group stub_lib checkout1 (Some ''PAYERBBBBBBBBBBBBBBBBBBBBBBBBBBBBBBBBBBBBBBBBBBBBBBBBBBBBB'') params0
      = Inr (group_with params0)"
    by (rule stub_group)
  have w: "waitForConfirmation (\<lambda>k. True) 0 4 = Inr ()"
    by (simp add: waitForConfirmation_4)
  show ?thesis
    by (simp add: pay_def pay_begin_def pay_resume_def pay_try_def page0_def inflight0_def
        world0_def truthy_def payment_group_status g w Let_def group_with_def)
qed

section \<open>Timers of the views\<close>

lemma timers_of_empty: "timers_of f b = [] \<longleftrightarrow> (\<forall>t\<in>set (timers b). cb t \<noteq> f)"
  by (simp add: timers_of_def filter_empty_conv)

lemma rearm_keeps:
  "u' \<in> set (rearm t ts) \<Longrightarrow> \<exists>u\<in>set ts. tid u' = tid u \<and> cb u' = cb u"
  by (induction ts) (auto split: if_splits option.splits)

lemma fire_fields:
  "refreshInterval (fire s) = refreshInterval s" "autoRefresh (fire s) = autoRefresh s"
  by (simp_all add: fire_def split: option.splits)

lemma fire_timers:
  "u' \<in> set (timers (fire s)) \<Longrightarrow> \<exists>u\<in>set (timers s). tid u' = tid u \<and> cb u' = cb u"
  by (auto simp: fire_def split: option.splits dest: rearm_keeps)

lemma stats_inv_fire: "stats_inv s \<Longrightarrow> stats_inv (fire s)"
  unfolding stats_inv_def by (metis fire_fields(1) fire_timers)

lemma rates_inv_fire: "rates_inv s \<Longrightarrow> rates_inv (fire s)"
  unfolding rates_inv_def by (metis fire_fields fire_timers)

lemma stats_inv_start: "stats_inv s \<Longrightarrow> stats_inv (startAutoRefresh s)"
  by (auto simp: stats_inv_def startAutoRefresh_def setInterval_def clear_handle_def
      clearInterval_def Let_def split: option.splits)

lemma stats_stop_none: "stats_inv s \<Longrightarrow> timers_of FetchData (stopAutoRefresh s) = []"
  by (auto simp: stats_inv_def stopAutoRefresh_def clearInterval_def timers_of_empty
      split: option.splits)

lemma stats_inv_stop: "stats_inv s \<Longrightarrow> stats_inv (stopAutoRefresh s)"
  by (auto simp: stats_inv_def stopAutoRefresh_def clearInterval_def split: option.splits)

lemma stats_inv_autoRefresh: "stats_inv (s\<lparr>autoRefresh := b\<rparr>) = stats_inv s"
  by (simp add: stats_inv_def)

lemma stats_inv_toggle: "stats_inv s \<Longrightarrow> stats_inv (toggleAutoRefresh_stats s)"
  by (simp add: toggleAutoRefresh_stats_def Let_def stats_inv_start stats_inv_stop
      stats_inv_autoRefresh)

lemma stats_inv_event: "stats_inv s \<Longrightarrow> stats_inv (stats_event e s)"
  by (cases e) (simp_all add: stats_inv_toggle stats_inv_fire)

lemma stats_inv_fold: "stats_inv s \<Longrightarrow> stats_inv (fold stats_event es s)"
  by (induction es arbitrary: s) (simp_all add: stats_inv_event)

lemma stats_inv_mount:
  assumes "timers_of FetchData s = []"
  shows "stats_inv (onMounted_stats (setup_stats s))"
proof -
  have "stats_inv (setup_stats s)"
    using assms by (simp add: stats_inv_def setup_stats_def timers_of_empty)
  then show ?thesis
    by (simp add: onMounted_stats_def stats_inv_start)
qed

lemma rates_inv_toggle: "rates_inv s \<Longrightarrow> rates_inv (toggleAutoRefresh_rates s)"
  by (auto simp: rates_inv_def toggleAutoRefresh_rates_def setInterval_def clearInterval_def
      Let_def split: option.splits)

lemma rates_inv_event: "rates_inv s \<Longrightarrow> rates_inv (rates_event e s)"
  by (cases e) (simp_all add: rates_inv_toggle rates_inv_fire)

lemma rates_inv_fold: "rates_inv s \<Longrightarrow> rates_inv (fold rates_event es s)"
  by (induction es arbitrary: s) (simp_all add: rates_inv_event)

lemma rates_inv_setup:
  assumes "timers_of FetchAllRates s = []"
  shows "rates_inv (setup_rates s)"
  using assms by (simp add: rates_inv_def setup_rates_def timers_of_empty)

lemma rates_unmount_none: "rates_inv s \<Longrightarrow> timers_of FetchAllRates (onUnmounted_rates s) = []"
  by (auto simp: rates_inv_def onUnmounted_rates_def clear_handle_def clearInterval_def
      timers_of_empty split: option.splits)

text \<open>
  Claim C9, as it holds. Every auto-refresh polling interval is cancelled when its view
  is torn down: whatever the user toggled and whichever timers fired while the
  exchange-rate view or the payment-statistics view was mounted, no timer running the
  view's callback is left after its \<open>onUnmounted\<close> hook.
\<close>

theorem refresh_timers_cancelled_on_teardown:
  assumes "timers_of FetchAllRates r = []" and "timers_of FetchData t = []"
  shows "timers_of FetchAllRates (rates_life es r) = []
       \<and> timers_of FetchData (stats_life es' t) = []"
proof
  have "rates_inv (fold rates_event es (setup_rates r))"
    by (rule rates_inv_fold [OF rates_inv_setup [OF assms(1)]])
  then show "timers_of FetchAllRates (rates_life es r) = []"
    unfolding rates_life_def by (rule rates_unmount_none)
next
  have "stats_inv (fold stats_event es' (onMounted_stats (setup_stats t)))"
    by (rule stats_inv_fold [OF stats_inv_mount [OF assms(2)]])
  then show "timers_of FetchData (stats_life es' t) = []"
    unfolding stats_life_def onUnmounted_stats_def by (rule stats_stop_none)
qed

theorem refresh_timers_cancelled_on_teardown_witness:
  "timers_of FetchAllRates view0 = [] \<and> timers_of FetchData view0 = []
   \<and> timers_of FetchAllRates (fold rates_event [Toggle] (setup_rates view0))
       = [\<lparr>tid = 2, due = 60000, every = Some 60000, cb = FetchAllRates\<rparr>]
   \<and> timers_of FetchAllRates (rates_life [Toggle, Fire, Toggle, Toggle] view0) = []
   \<and> timers_of FetchData (onMounted_stats (setup_stats view0))
       = [\<lparr>tid = 2, due = 5000, every = Some 5000, cb = FetchData\<rparr>]
   \<and> timers_of FetchData (stats_life [Fire, Toggle, Toggle] view0) = []"
proof -
  have a: "timers_of FetchAllRates view0 = []"
    by (simp add: timers_of_def view0_def)
  have b: "timers_of FetchData view0 = []"
    by (simp add: timers_of_def view0_def)
  have c: "timers_of FetchAllRates (fold rates_event [Toggle] (setup_rates view0))
       = [\<lparr>tid = 2, due = 60000, every = Some 60000, cb = FetchAllRates\<rparr>]"
    by (simp add: timers_of_def view0_def setup_rates_def toggleAutoRefresh_rates_def
        setInterval_def Let_def)
  have d: "timers_of FetchData (onMounted_stats (setup_stats view0))
       = [\<lparr>tid = 2, due = 5000, every = Some 5000, cb = FetchData\<rparr>]"
    by (simp add: timers_of_def view0_def setup_stats_def onMounted_stats_def
        startAutoRefresh_def clear_handle_def setInterval_def Let_def)
  show ?thesis
    using a b c d
      refresh_timers_cancelled_on_teardown [OF a b, of "[Toggle, Fire, Toggle, Toggle]"
        "[Fire, Toggle, Toggle]"]
    by simp
qed

text \<open>
  Claim C9 as stated fails for the per-second countdown tick: the payment page keeps no
  handle of its interval and has no teardown hook, so after the view is torn down the
  interval is still pending.
\<close>

theorem countdown_interval_survives_teardown:
  "status (checkout page0) = ''pending''
   \<and> timers (onUnmounted_page (onMounted_page stub_lib world0 page0))
       = [\<lparr>tid = 1, due = 1000, every = Some 1000, cb = UpdateTimeRemaining\<rparr>]"
  by (simp add: onUnmounted_page_def onMounted_page_def updateTimeRemaining_def page0_def
      checkout1_def stub_lib_def digit_of_def setInterval_def world0_def
      restored_account_def Let_def)

section \<open>The countdown\<close>





declare turns.simps [simp del]

















lemma countdown_run:
  "timeRemaining (turns stub_lib 4 (onMounted_page stub_lib world0 page5)) = ''0m 1s''"
  "timers (turns stub_lib 6 (onMounted_page stub_lib world0 page5)) =
     [tick_timer 1 7000, reload_timer 2 6500, reload_timer 3 7500]"
  "timers (turns stub_lib 7 (onMounted_page stub_lib world0 page5)) = []"
  by (simp_all add: numeral_eq_Suc turns.simps turn_def onMounted_page_def
      updateTimeRemaining_def setInterval_def setTimeout_def reload_def page5_def page0_def
      checkout1_def stub_lib_def digit_of_def world0_def restored_account_def
      tick_timer_def reload_timer_def dec.simps Let_def)

end
